theory Spec2Isabelle
  imports Complex_Main
begin

section \<open>Numeric models of the two experiments\<close>

text \<open>
  The repository holds two scripts. \<^verbatim>\<open>experiment1_prediction_horizon.py\<close> evaluates
  \<^verbatim>\<open>simulate_prediction_horizon\<close> on five horizons and takes the entry of largest
  throughput with the built-in \<^verbatim>\<open>max\<close>. \<^verbatim>\<open>experiment2_fairness_divergence.py\<close>
  evaluates \<^verbatim>\<open>simulate_fairness_collapse\<close> on four cycles and computes two improvement
  percentages for cycle 100.

  Numbers. A Python \<^verbatim>\<open>int\<close> is an \<^typ>\<open>int\<close>. A Python \<^verbatim>\<open>float\<close> is read as the
  \<^typ>\<open>real\<close> number its literal denotes and float arithmetic as exact arithmetic: the
  rounding of binary64 (a relative error of at most \<open>2\<^sup>-\<^sup>5\<^sup>3\<close> in each operation) is
  outside the model, and the values below are the exact ones. Where a value is compared
  with a literal of the specification, the comparison carries the tolerance the
  specification gives (\<open>10\<^sup>-\<^sup>9\<close>); the differences that refute a statement are of size
  \<open>5 * 10\<^sup>-\<^sup>4\<close> or more.

  Errors. The exceptions that the modelled code can raise are values of \<open>py_error\<close>; a
  computation that may raise returns \<open>py_error + 'a\<close>, with \<open>Inl\<close> for the exception.
  The product of an integer and a float converts the integer to a double first and
  raises \<^verbatim>\<open>OverflowError\<close> when the integer is too large for one.
\<close>

datatype py_error =
  ValueError          \<comment> \<open>\<^verbatim>\<open>max()\<close> of an empty sequence\<close>
| ZeroDivisionError   \<comment> \<open>float division by zero\<close>
| OverflowError       \<comment> \<open>an integer too large to convert to a float\<close>

definition py_bind :: "py_error + 'a \<Rightarrow> ('a \<Rightarrow> py_error + 'b) \<Rightarrow> py_error + 'b" where
  "py_bind r f = (case r of Inl e \<Rightarrow> Inl e | Inr v \<Rightarrow> f v)"

text \<open>
  The conversion of an integer to a double rounds to 53 significant bits, ties to even,
  and raises when the rounded value needs an exponent beyond that of the largest double
  \<open>2\<^sup>1\<^sup>0\<^sup>2\<^sup>4 - 2\<^sup>9\<^sup>7\<^sup>1\<close>: that is from \<open>2\<^sup>1\<^sup>0\<^sup>2\<^sup>4 - 2\<^sup>9\<^sup>7\<^sup>0\<close> on, the midpoint between the
  largest double and \<open>2\<^sup>1\<^sup>0\<^sup>2\<^sup>4\<close>, in absolute value. Below it the conversion returns, and
  the model takes the integer itself as the result.
\<close>

definition double_range :: int where
  "double_range = 2 ^ 1024 - 2 ^ 970"

definition py_float :: "int \<Rightarrow> py_error + real" where
  "py_float n = (if \<bar>n\<bar> < double_range then Inr (of_int n) else Inl OverflowError)"

text \<open>\<^verbatim>\<open>n * x\<close> for an integer \<^verbatim>\<open>n\<close> and a float \<^verbatim>\<open>x\<close>.\<close>

definition int_mul_float :: "int \<Rightarrow> real \<Rightarrow> py_error + real" where
  "int_mul_float n x = py_bind (py_float n) (\<lambda>y. Inr (y * x))"

subsection \<open>Experiment 2: \<^verbatim>\<open>simulate_fairness_collapse\<close>\<close>

text \<open>The dictionary returned by \<^verbatim>\<open>simulate_fairness_collapse\<close>, with its three keys.\<close>

record cycle_result =
  cycle :: int
  divergence :: real
  fairness :: real

text \<open>
  The function, branch by branch in the order of the source: the mitigated formula
  first, then the chain \<^verbatim>\<open>cycle_num == 0\<close>, \<^verbatim>\<open>cycle_num <= 50\<close>, \<^verbatim>\<open>cycle_num <= 65\<close>,
  \<^verbatim>\<open>else\<close>. There is no check of the sign of \<^verbatim>\<open>cycle_num\<close>: a negative cycle falls
  into the branch \<^verbatim>\<open>cycle_num <= 50\<close>. In each branch the divergence is computed before
  the fairness, and each of the two multiplies an integer by a float literal, which
  may raise.
\<close>

definition simulate_fairness_collapse_call :: "int \<Rightarrow> bool \<Rightarrow> py_error + cycle_result" where
  "simulate_fairness_collapse_call cycle_num with_mitigation =
     (if with_mitigation then
        py_bind (int_mul_float cycle_num 0.0014) (\<lambda>p.
        py_bind (int_mul_float cycle_num 0.0005) (\<lambda>q.
          Inr \<lparr>cycle = cycle_num,
               divergence = min (0.05 + p) 0.20,
               fairness = max (0.96 - q) 0.90\<rparr>))
      else if cycle_num = 0 then
        Inr \<lparr>cycle = cycle_num, divergence = 0.0, fairness = 0.96\<rparr>
      else if cycle_num \<le> 50 then
        py_bind (int_mul_float cycle_num 0.0084) (\<lambda>p.
        py_bind (int_mul_float cycle_num 0.005) (\<lambda>q.
          Inr \<lparr>cycle = cycle_num,
               divergence = p,
               fairness = 0.96 - q\<rparr>))
      else if cycle_num \<le> 65 then
        py_bind (int_mul_float (cycle_num - 50) 0.0073) (\<lambda>p.
        py_bind (int_mul_float (cycle_num - 50) 0.0153) (\<lambda>q.
          Inr \<lparr>cycle = cycle_num,
               divergence = 0.42 + p,
               fairness = 0.71 - q\<rparr>))
      else
        py_bind (int_mul_float (cycle_num - 65) 0.0169) (\<lambda>p.
        py_bind (int_mul_float (cycle_num - 65) 0.0083) (\<lambda>q.
          Inr \<lparr>cycle = cycle_num,
               divergence = 0.53 + p,
               fairness = max (0.48 - q) 0.15\<rparr>)))"

text \<open>
  The dictionary of a call that returns, written without the error cases: the same
  branches with the integer read as a real number. It is the value of every call that
  returns (lemma \<open>call_returns_value\<close>), and the script, whose cycles are 0, 50, 65 and
  100, reads it.
\<close>

definition simulate_fairness_collapse :: "int \<Rightarrow> bool \<Rightarrow> cycle_result" where
  "simulate_fairness_collapse cycle_num with_mitigation =
     (if with_mitigation then
        \<lparr>cycle = cycle_num,
         divergence = min (0.05 + of_int cycle_num * 0.0014) 0.20,
         fairness = max (0.96 - of_int cycle_num * 0.0005) 0.90\<rparr>
      else if cycle_num = 0 then
        \<lparr>cycle = cycle_num, divergence = 0.0, fairness = 0.96\<rparr>
      else if cycle_num \<le> 50 then
        \<lparr>cycle = cycle_num,
         divergence = of_int cycle_num * 0.0084,
         fairness = 0.96 - of_int cycle_num * 0.005\<rparr>
      else if cycle_num \<le> 65 then
        \<lparr>cycle = cycle_num,
         divergence = 0.42 + of_int (cycle_num - 50) * 0.0073,
         fairness = 0.71 - of_int (cycle_num - 50) * 0.0153\<rparr>
      else
        \<lparr>cycle = cycle_num,
         divergence = 0.53 + of_int (cycle_num - 65) * 0.0169,
         fairness = max (0.48 - of_int (cycle_num - 65) * 0.0083) 0.15\<rparr>)"

text \<open>The mitigated path in the words of the specification, for comparison.\<close>

definition spec_mitigated_divergence :: "int \<Rightarrow> real" where
  "spec_mitigated_divergence cycle_index = min (0.05 + 0.0014 * of_int cycle_index) 0.20"

definition spec_mitigated_fairness :: "int \<Rightarrow> real" where
  "spec_mitigated_fairness cycle_index = max (0.96 - 0.0005 * of_int cycle_index) 0.90"

text \<open>
  The script: the key cycles, the unmitigated results in order, the last of them
  (\<^verbatim>\<open>results_no_mitigation[-1]\<close>) and the mitigated result of cycle 100.
\<close>

definition key_cycles :: "int list" where
  "key_cycles = [0, 50, 65, 100]"

definition results_no_mitigation :: "cycle_result list" where
  "results_no_mitigation = map (\<lambda>cycle. simulate_fairness_collapse cycle False) key_cycles"

definition result_no_mitigation_100 :: cycle_result where
  "result_no_mitigation_100 = last results_no_mitigation"

definition result_with_mitigation_100 :: cycle_result where
  "result_with_mitigation_100 = simulate_fairness_collapse 100 True"

text \<open>
  Float division raises \<^verbatim>\<open>ZeroDivisionError\<close> on a zero divisor. The two improvement
  percentages are written as functions of the two dictionaries they read; the script
  applies them to \<open>result_no_mitigation_100\<close> and \<open>result_with_mitigation_100\<close>.
\<close>

definition py_truediv :: "real \<Rightarrow> real \<Rightarrow> py_error + real" where
  "py_truediv a b = (if b = 0 then Inl ZeroDivisionError else Inr (a / b))"

definition improvement_D :: "cycle_result \<Rightarrow> cycle_result \<Rightarrow> py_error + real" where
  "improvement_D no_mitigation with_mitigation =
     (case py_truediv (divergence no_mitigation - divergence with_mitigation)
             (divergence no_mitigation) of
        Inl e \<Rightarrow> Inl e
      | Inr q \<Rightarrow> Inr (q * 100))"

definition improvement_J :: "cycle_result \<Rightarrow> cycle_result \<Rightarrow> py_error + real" where
  "improvement_J no_mitigation with_mitigation =
     (case py_truediv (fairness with_mitigation - fairness no_mitigation)
             (fairness no_mitigation) of
        Inl e \<Rightarrow> Inl e
      | Inr q \<Rightarrow> Inr (q * 100))"

subsection \<open>Experiment 1: \<^verbatim>\<open>simulate_prediction_horizon\<close> and the optimum\<close>

text \<open>
  The dictionary returned by \<^verbatim>\<open>simulate_prediction_horizon\<close>, and the entries of
  \<^verbatim>\<open>results\<close>, which carry the same three keys and the horizon. The function is read
  on real horizons with exact arithmetic; the script calls it on the five integers of
  \<^verbatim>\<open>horizons\<close>, and the \<^verbatim>\<open>OverflowError\<close> that the division and the power raise for
  horizons of astronomic size is not part of this model.
\<close>

record metrics =
  throughput :: real
  latency :: real
  prediction_error :: real

record horizon_result = metrics +
  horizon :: int

definition simulate_prediction_horizon :: "real \<Rightarrow> metrics" where
  "simulate_prediction_horizon tau_pred =
     (let link_capacity_mbps = 1000;
          base_throughput_mbps = link_capacity_mbps * 0.95;
          base_latency_ms = 7.0;
          base_error_ms = 0.4;
          prediction_error_ms = base_error_ms * (1 + tau_pred / 60) ^ 2;
          link_efficiency =
            (if tau_pred < 20 then 0.80 + (tau_pred / 20) * 0.15
             else if tau_pred < 60 then 0.95
             else 0.95 - (tau_pred - 60) / 200);
          error_penalty = prediction_error_ms / 10;
          throughput_mbps = base_throughput_mbps * link_efficiency * (1 - error_penalty);
          latency_ms = base_latency_ms + prediction_error_ms * 2
      in \<lparr>throughput = throughput_mbps,
          latency = latency_ms,
          prediction_error = prediction_error_ms\<rparr>)"

definition horizons :: "int list" where
  "horizons = [10, 30, 45, 60, 90]"

definition results :: "horizon_result list" where
  "results =
     map (\<lambda>tau. let metrics = simulate_prediction_horizon (of_int tau)
                in \<lparr>throughput = throughput metrics,
                    latency = latency metrics,
                    prediction_error = prediction_error metrics,
                    horizon = tau\<rparr>) horizons"

text \<open>
  The built-in \<^verbatim>\<open>max(iterable, key=f)\<close>: it raises \<^verbatim>\<open>ValueError\<close> on an empty
  iterable; otherwise it keeps the first item and replaces it by a later one only when
  that one's key is strictly greater (\<^verbatim>\<open>key(item) > key(maxitem)\<close>).
\<close>

fun max_loop :: "('a \<Rightarrow> real) \<Rightarrow> 'a \<Rightarrow> 'a list \<Rightarrow> 'a" where
  "max_loop key maxitem [] = maxitem"
| "max_loop key maxitem (item # it) =
     max_loop key (if key item > key maxitem then item else maxitem) it"

definition py_max :: "'a list \<Rightarrow> ('a \<Rightarrow> real) \<Rightarrow> py_error + 'a" where
  "py_max xs key = (case xs of [] \<Rightarrow> Inl ValueError | x # it \<Rightarrow> Inr (max_loop key x it))"

text \<open>
  \<^verbatim>\<open>optimal = max(results, key=lambda x: x['throughput'])\<close>, as a function of the list
  it reads.
\<close>

definition optimal :: "horizon_result list \<Rightarrow> py_error + horizon_result" where
  "optimal rs = py_max rs throughput"

section \<open>When a call returns\<close>

lemma double_range_large: "100 < double_range"
  by (simp add: double_range_def)

lemma int_mul_float_in_range:
  "\<bar>n\<bar> < double_range \<Longrightarrow> int_mul_float n x = Inr (of_int n * x)"
  by (simp add: int_mul_float_def py_float_def py_bind_def)

lemma int_mul_float_overflow:
  "double_range \<le> \<bar>n\<bar> \<Longrightarrow> int_mul_float n x = Inl OverflowError"
  by (simp add: int_mul_float_def py_float_def py_bind_def)

text \<open>
  The mitigated path converts \<^verbatim>\<open>cycle_num\<close> itself: it returns exactly when
  \<open>\<bar>cycle_num\<bar> < double_range\<close>.
\<close>

lemma call_mitigated_in_range:
  "\<bar>c\<bar> < double_range \<Longrightarrow>
   simulate_fairness_collapse_call c True = Inr (simulate_fairness_collapse c True)"
  by (simp add: simulate_fairness_collapse_call_def simulate_fairness_collapse_def
      int_mul_float_in_range py_bind_def)

lemma call_mitigated_overflow:
  "double_range \<le> \<bar>c\<bar> \<Longrightarrow> simulate_fairness_collapse_call c True = Inl OverflowError"
  by (simp add: simulate_fairness_collapse_call_def int_mul_float_overflow py_bind_def)

text \<open>
  The unmitigated path converts nothing at cycle 0, \<^verbatim>\<open>cycle_num\<close> up to 50,
  \<^verbatim>\<open>cycle_num - 50\<close> up to 65 and \<^verbatim>\<open>cycle_num - 65\<close> beyond: it returns exactly when
  \<open>- double_range < cycle_num < double_range + 65\<close>.
\<close>

lemma call_unmitigated_in_range:
  assumes "- double_range < c" and "c < double_range + 65"
  shows "simulate_fairness_collapse_call c False = Inr (simulate_fairness_collapse c False)"
proof -
  note double_range_large
  moreover have "\<bar>c\<bar> < double_range" if "c \<le> 50"
    using that assms double_range_large by linarith
  moreover have "\<bar>c - 50\<bar> < double_range" if "50 < c" "c \<le> 65"
    using that double_range_large by linarith
  moreover have "\<bar>c - 65\<bar> < double_range" if "65 < c"
    using that assms by linarith
  ultimately show ?thesis
    by (simp add: simulate_fairness_collapse_call_def simulate_fairness_collapse_def
        int_mul_float_in_range py_bind_def)
qed

lemma call_unmitigated_overflow:
  assumes "c \<le> - double_range \<or> double_range + 65 \<le> c"
  shows "simulate_fairness_collapse_call c False = Inl OverflowError"
proof -
  from assms show ?thesis
  proof
    assume "c \<le> - double_range"
    with double_range_large have "c \<noteq> 0" "c \<le> 50" "double_range \<le> \<bar>c\<bar>"
      by linarith+
    then show ?thesis
      by (simp add: simulate_fairness_collapse_call_def int_mul_float_overflow py_bind_def)
  next
    assume "double_range + 65 \<le> c"
    with double_range_large
    have "c \<noteq> 0" "\<not> c \<le> 50" "\<not> c \<le> 65" "double_range \<le> \<bar>c - 65\<bar>"
      by linarith+
    then show ?thesis
      by (simp add: simulate_fairness_collapse_call_def int_mul_float_overflow py_bind_def)
  qed
qed

text \<open>A call that returns, returns the dictionary of \<open>simulate_fairness_collapse\<close>.\<close>

lemma call_returns_value:
  assumes "simulate_fairness_collapse_call c m = Inr r"
  shows "r = simulate_fairness_collapse c m"
proof (cases m)
  case True
  show ?thesis
  proof (cases "\<bar>c\<bar> < double_range")
    case in_range: True
    with \<open>m\<close> assms call_mitigated_in_range [OF in_range] show ?thesis by simp
  next
    case False
    then have "double_range \<le> \<bar>c\<bar>" by simp
    with \<open>m\<close> assms call_mitigated_overflow [of c] show ?thesis by simp
  qed
next
  case False
  show ?thesis
  proof (cases "- double_range < c \<and> c < double_range + 65")
    case True
    with \<open>\<not> m\<close> assms call_unmitigated_in_range [of c] show ?thesis by simp
  next
    case out: False
    then have "c \<le> - double_range \<or> double_range + 65 \<le> c" by linarith
    with \<open>\<not> m\<close> assms call_unmitigated_overflow [of c] show ?thesis by simp
  qed
qed

text \<open>
  The calls of the script, at cycles 0, 50, 65 and 100, all return, and so does the
  mitigated call at cycle 0.
\<close>

lemma call_key_cycles:
  "list_all (\<lambda>c. simulate_fairness_collapse_call c False
                   = Inr (simulate_fairness_collapse c False)) key_cycles
   \<and> simulate_fairness_collapse_call 100 True = Inr (simulate_fairness_collapse 100 True)
   \<and> simulate_fairness_collapse_call 0 True = Inr (simulate_fairness_collapse 0 True)"
  using double_range_large
  by (simp add: key_cycles_def call_unmitigated_in_range call_mitigated_in_range)

section \<open>Evaluation at the key points\<close>

lemma fairness_collapse_50:
  "simulate_fairness_collapse 50 False = \<lparr>cycle = 50, divergence = 0.42, fairness = 0.71\<rparr>"
  by (simp add: simulate_fairness_collapse_def)

lemma fairness_collapse_65:
  "simulate_fairness_collapse 65 False = \<lparr>cycle = 65, divergence = 0.5295, fairness = 0.4805\<rparr>"
  by (simp add: simulate_fairness_collapse_def)

lemma fairness_collapse_100:
  "simulate_fairness_collapse 100 False = \<lparr>cycle = 100, divergence = 1.1215, fairness = 0.1895\<rparr>"
  by (simp add: simulate_fairness_collapse_def)

lemma fairness_collapse_100_mitigated:
  "simulate_fairness_collapse 100 True = \<lparr>cycle = 100, divergence = 0.19, fairness = 0.91\<rparr>"
  by (simp add: simulate_fairness_collapse_def)

lemma result_no_mitigation_100_eq:
  "result_no_mitigation_100 = \<lparr>cycle = 100, divergence = 1.1215, fairness = 0.1895\<rparr>"
  by (simp add: result_no_mitigation_100_def results_no_mitigation_def key_cycles_def
      fairness_collapse_100)

lemma result_with_mitigation_100_eq:
  "result_with_mitigation_100 = \<lparr>cycle = 100, divergence = 0.19, fairness = 0.91\<rparr>"
  by (simp add: result_with_mitigation_100_def fairness_collapse_100_mitigated)

section \<open>The unmitigated anchor points\<close>

text \<open>
  C2, as stated: on the unmitigated path cycle 50 gives divergence 0.42 and fairness
  0.71, cycle 65 gives 0.53 and 0.48, and cycle 100 gives 1.12 and 0.19, each within
  \<open>10\<^sup>-\<^sup>9\<close>. The statement fails: the conjunction of the six bounds is false, since the
  branch \<^verbatim>\<open>cycle_num <= 65\<close> yields \<open>0.42 + 15 * 0.0073 = 0.5295\<close> at cycle 65.
\<close>

theorem anchor_points_tolerance_counterexample:
  "\<not> (\<bar>divergence (simulate_fairness_collapse 50 False) - 0.42\<bar> \<le> 1 / 10 ^ 9
      \<and> \<bar>fairness (simulate_fairness_collapse 50 False) - 0.71\<bar> \<le> 1 / 10 ^ 9
      \<and> \<bar>divergence (simulate_fairness_collapse 65 False) - 0.53\<bar> \<le> 1 / 10 ^ 9
      \<and> \<bar>fairness (simulate_fairness_collapse 65 False) - 0.48\<bar> \<le> 1 / 10 ^ 9
      \<and> \<bar>divergence (simulate_fairness_collapse 100 False) - 1.12\<bar> \<le> 1 / 10 ^ 9
      \<and> \<bar>fairness (simulate_fairness_collapse 100 False) - 0.19\<bar> \<le> 1 / 10 ^ 9)"
  by (simp add: fairness_collapse_65)

text \<open>
  C2, amended: within \<open>10\<^sup>-\<^sup>9\<close>, cycle 50 gives divergence 0.42 and fairness 0.71,
  cycle 65 gives 0.5295 and 0.4805, and cycle 100 gives 1.1215 and 0.1895. These agree
  with 0.53, 0.48, 1.12 and 0.19 to the two decimals the script prints: each differs
  from the two-decimal value by less than 0.005.
\<close>

theorem anchor_points_values:
  "\<bar>divergence (simulate_fairness_collapse 50 False) - 0.42\<bar> \<le> 1 / 10 ^ 9
   \<and> \<bar>fairness (simulate_fairness_collapse 50 False) - 0.71\<bar> \<le> 1 / 10 ^ 9
   \<and> \<bar>divergence (simulate_fairness_collapse 65 False) - 0.5295\<bar> \<le> 1 / 10 ^ 9
   \<and> \<bar>fairness (simulate_fairness_collapse 65 False) - 0.4805\<bar> \<le> 1 / 10 ^ 9
   \<and> \<bar>divergence (simulate_fairness_collapse 100 False) - 1.1215\<bar> \<le> 1 / 10 ^ 9
   \<and> \<bar>fairness (simulate_fairness_collapse 100 False) - 0.1895\<bar> \<le> 1 / 10 ^ 9
   \<and> \<bar>divergence (simulate_fairness_collapse 65 False) - 0.53\<bar> < 0.005
   \<and> \<bar>fairness (simulate_fairness_collapse 65 False) - 0.48\<bar> < 0.005
   \<and> \<bar>divergence (simulate_fairness_collapse 100 False) - 1.12\<bar> < 0.005
   \<and> \<bar>fairness (simulate_fairness_collapse 100 False) - 0.19\<bar> < 0.005"
  by (simp add: fairness_collapse_50 fairness_collapse_65 fairness_collapse_100)

section \<open>Cycle 0\<close>

text \<open>
  C3, as stated: at cycle 0 the model returns divergence exactly 0.0 and fairness
  exactly 0.96 whatever the mitigation flag, so both flags give the same pair. The
  statement fails: the mitigated branch has no case for cycle 0 and returns its
  residual \<open>0.05 + 0 * 0.0014 = 0.05\<close> as divergence.
\<close>

theorem cycle_zero_same_pair_counterexample:
  "\<not> (divergence (simulate_fairness_collapse 0 False) = 0.0
      \<and> fairness (simulate_fairness_collapse 0 False) = 0.96
      \<and> divergence (simulate_fairness_collapse 0 True) = 0.0
      \<and> fairness (simulate_fairness_collapse 0 True) = 0.96
      \<and> (divergence (simulate_fairness_collapse 0 False),
           fairness (simulate_fairness_collapse 0 False))
        = (divergence (simulate_fairness_collapse 0 True),
           fairness (simulate_fairness_collapse 0 True)))"
  by (simp add: simulate_fairness_collapse_def)

text \<open>
  C3, amended: at cycle 0 the unmitigated path returns divergence exactly 0.0 and
  fairness exactly 0.96; the mitigated path returns the same fairness 0.96 and
  divergence 0.05, the initial residual of its formula.
\<close>

theorem cycle_zero_values:
  "simulate_fairness_collapse 0 False = \<lparr>cycle = 0, divergence = 0.0, fairness = 0.96\<rparr>
   \<and> simulate_fairness_collapse 0 True = \<lparr>cycle = 0, divergence = 0.05, fairness = 0.96\<rparr>"
  by (simp add: simulate_fairness_collapse_def)

section \<open>Improvement percentages at cycle 100\<close>

lemma improvement_J_100:
  "improvement_J result_no_mitigation_100 result_with_mitigation_100 = Inr (144100 / 379)"
  by (simp add: improvement_J_def py_truediv_def result_no_mitigation_100_eq
      result_with_mitigation_100_eq)

lemma improvement_D_100:
  "improvement_D result_no_mitigation_100 result_with_mitigation_100 = Inr (186300 / 2243)"
  by (simp add: improvement_D_def py_truediv_def result_no_mitigation_100_eq
      result_with_mitigation_100_eq)

text \<open>
  C1, as stated: for the cycle-100 pair the fairness improvement is
  \<open>(mitigated.fairness - baseline.fairness) / mitigated.fairness * 100\<close>, about 79.12.
  The statement fails: the script divides by the fairness of the unmitigated result,
  \<open>(0.91 - 0.1895) / 0.1895 * 100 = 144100 / 379\<close>, which is not the quotient by the
  mitigated fairness and is more than 300 away from 79.12.
\<close>

theorem fairness_improvement_denominator_counterexample:
  "improvement_J result_no_mitigation_100 result_with_mitigation_100 = Inr (144100 / 379)
   \<and> (144100 / 379 :: real) \<noteq>
       (fairness result_with_mitigation_100 - fairness result_no_mitigation_100)
         / fairness result_with_mitigation_100 * 100
   \<and> 300 < \<bar>144100 / 379 - 79.12 :: real\<bar>"
  using improvement_J_100
  by (simp add: result_no_mitigation_100_eq result_with_mitigation_100_eq)

text \<open>
  C1, amended: for the cycle-100 pair the fairness improvement percentage equals
  \<open>(mitigated.fairness - baseline.fairness) / baseline.fairness * 100\<close>, the
  denominator being the baseline (unmitigated) fairness, and its value is
  \<open>144100 / 379\<close>, about 380.21.
\<close>

theorem fairness_improvement_value:
  "improvement_J result_no_mitigation_100 result_with_mitigation_100 =
     Inr ((fairness result_with_mitigation_100 - fairness result_no_mitigation_100)
            / fairness result_no_mitigation_100 * 100)
   \<and> improvement_J result_no_mitigation_100 result_with_mitigation_100 = Inr (144100 / 379)
   \<and> \<bar>144100 / 379 - 380.21 :: real\<bar> < 0.005"
  using improvement_J_100
  by (simp add: result_no_mitigation_100_eq result_with_mitigation_100_eq)

text \<open>
  C6, as stated: for the cycle-100 pair the divergence improvement is
  \<open>(baseline.divergence - mitigated.divergence) / baseline.divergence * 100\<close>, about
  83.04. The formula is the script's, the value is not: the unmitigated divergence at
  cycle 100 is 1.1215, not 1.12, so the percentage is \<open>186300 / 2243\<close>, which lies more
  than 0.018 above 83.04 (it is 83.06 to two decimals and 83.1 to one, where 83.04 gives
  83.0).
\<close>

theorem divergence_improvement_value_counterexample:
  "improvement_D result_no_mitigation_100 result_with_mitigation_100 = Inr (186300 / 2243)
   \<and> 0.018 < \<bar>186300 / 2243 - 83.04 :: real\<bar>"
  by (simp add: improvement_D_100)

text \<open>
  C6, amended: for the cycle-100 pair the divergence improvement percentage equals
  \<open>(baseline.divergence - mitigated.divergence) / baseline.divergence * 100\<close> and its
  value is \<open>186300 / 2243\<close>, about 83.06.
\<close>

theorem divergence_improvement_value:
  "improvement_D result_no_mitigation_100 result_with_mitigation_100 =
     Inr ((divergence result_no_mitigation_100 - divergence result_with_mitigation_100)
            / divergence result_no_mitigation_100 * 100)
   \<and> improvement_D result_no_mitigation_100 result_with_mitigation_100 = Inr (186300 / 2243)
   \<and> \<bar>186300 / 2243 - 83.06 :: real\<bar> < 0.005"
  using improvement_D_100
  by (simp add: result_no_mitigation_100_eq result_with_mitigation_100_eq)

section \<open>Fairness along the cycles\<close>

lemma fairness_unmitigated:
  "fairness (simulate_fairness_collapse c False) =
     (if c = 0 then 0.96
      else if c \<le> 50 then 0.96 - of_int c * 0.005
      else if c \<le> 65 then 0.71 - (of_int c - 50) * 0.0153
      else max (0.48 - (of_int c - 65) * 0.0083) 0.15)"
  by (simp add: simulate_fairness_collapse_def)

lemma fairness_mitigated:
  "fairness (simulate_fairness_collapse c True) = max (0.96 - of_int c * 0.0005) 0.90"
  by (simp add: simulate_fairness_collapse_def)

lemma fairness_phase1:
  "1 \<le> c \<Longrightarrow> c \<le> 50 \<Longrightarrow>
   fairness (simulate_fairness_collapse c False) = 0.96 - of_int c * 0.005"
  by (simp add: fairness_unmitigated)

lemma fairness_phase2:
  "51 \<le> c \<Longrightarrow> c \<le> 65 \<Longrightarrow>
   fairness (simulate_fairness_collapse c False) = 0.71 - (of_int c - 50) * 0.0153"
  by (simp add: fairness_unmitigated)

lemma fairness_phase3:
  "66 \<le> c \<Longrightarrow>
   fairness (simulate_fairness_collapse c False) = max (0.48 - (of_int c - 65) * 0.0083) 0.15"
  by (simp add: fairness_unmitigated)

text \<open>
  One more cycle never raises the unmitigated fairness: inside a phase the formula
  decreases (or stays at the floor 0.15), and at the three phase changes the values are
  \<open>0.96 \<ge> 0.955\<close> (cycles 0 and 1), \<open>0.71 \<ge> 0.6947\<close> (cycles 50 and 51) and
  \<open>0.4805 \<ge> 0.4717\<close> (cycles 65 and 66).
\<close>

lemma fairness_step:
  assumes "0 \<le> c"
  shows "fairness (simulate_fairness_collapse (c + 1) False)
         \<le> fairness (simulate_fairness_collapse c False)"
proof -
  consider "c = 0" | "1 \<le> c" "c \<le> 49" | "c = 50" | "51 \<le> c" "c \<le> 64" | "c = 65" | "66 \<le> c"
    using assms by linarith
  then show ?thesis
  proof cases
    case 1 then show ?thesis by (simp add: fairness_unmitigated)
  next
    case 2 then show ?thesis by (simp add: fairness_phase1 field_simps)
  next
    case 3 then show ?thesis by (simp add: fairness_unmitigated)
  next
    case 4 then show ?thesis by (simp add: fairness_phase2 field_simps)
  next
    case 5 then show ?thesis by (simp add: fairness_unmitigated)
  next
    case 6 then show ?thesis by (simp add: fairness_phase3 max_def field_simps)
  qed
qed

lemma fairness_value_non_increasing:
  assumes "0 \<le> c1" and "c1 < c2"
  shows "fairness (simulate_fairness_collapse c2 False)
         \<le> fairness (simulate_fairness_collapse c1 False)"
  using assms(2)
proof (induction c2 rule: int_gr_induct)
  case base
  show ?case using assms(1) by (rule fairness_step)
next
  case (step i)
  have "fairness (simulate_fairness_collapse (i + 1) False)
        \<le> fairness (simulate_fairness_collapse i False)"
    using assms(1) step.hyps by (intro fairness_step) linarith
  with step.IH show ?case by linarith
qed

lemma fairness_mitigated_above:
  assumes "1 \<le> c"
  shows "fairness (simulate_fairness_collapse c False)
         < fairness (simulate_fairness_collapse c True)"
proof -
  consider "c \<le> 50" | "51 \<le> c" "c \<le> 65" | "66 \<le> c"
    by linarith
  then show ?thesis
  proof cases
    case 1
    with assms show ?thesis
      by (simp add: fairness_phase1 fairness_mitigated max_def field_simps)
  next
    case 2
    then show ?thesis
      by (simp add: fairness_phase2 fairness_mitigated max_def field_simps)
  next
    case 3
    then show ?thesis
      by (simp add: fairness_phase3 fairness_mitigated max_def field_simps)
  qed
qed

lemma fairness_value_dominates:
  assumes "0 \<le> c"
  shows "fairness (simulate_fairness_collapse c False)
           \<le> fairness (simulate_fairness_collapse c True)
         \<and> (fairness (simulate_fairness_collapse c True)
              = fairness (simulate_fairness_collapse c False) \<longleftrightarrow> c = 0)"
proof (cases "c = 0")
  case True
  then show ?thesis by (simp add: fairness_unmitigated fairness_mitigated)
next
  case False
  with assms have "1 \<le> c" by linarith
  from fairness_mitigated_above [OF this] False show ?thesis by simp
qed

section \<open>The mitigated path\<close>

lemma mitigated_value_formula:
  "simulate_fairness_collapse cycle_index True =
     \<lparr>cycle = cycle_index,
      divergence = spec_mitigated_divergence cycle_index,
      fairness = spec_mitigated_fairness cycle_index\<rparr>"
  by (simp add: simulate_fairness_collapse_def spec_mitigated_divergence_def
      spec_mitigated_fairness_def mult.commute)

text \<open>
  C5, as stated: for every non-negative cycle index the mitigated path is the single
  formula of the specification, divergence \<open>min (0.05 + 0.0014 * cycle_index) 0.20\<close>
  and fairness \<open>max (0.96 - 0.0005 * cycle_index) 0.90\<close>, and at cycle 100 it returns
  0.19 and 0.91 within \<open>10\<^sup>-\<^sup>9\<close>. The statement fails for the large indices: at
  \<open>2\<^sup>1\<^sup>0\<^sup>2\<^sup>4\<close> the product \<^verbatim>\<open>cycle_num * 0.0014\<close> raises \<^verbatim>\<open>OverflowError\<close> and no
  value is returned.
\<close>

theorem mitigated_formula_overflow_counterexample:
  "(0 :: int) \<le> 2 ^ 1024
   \<and> simulate_fairness_collapse_call (2 ^ 1024) True = Inl OverflowError"
  by (simp add: call_mitigated_overflow double_range_def)

text \<open>
  C5, amended: for every non-negative cycle index below \<open>2\<^sup>1\<^sup>0\<^sup>2\<^sup>4 - 2\<^sup>9\<^sup>7\<^sup>0\<close> the mitigated
  path returns the single formula of the specification, divergence
  \<open>min (0.05 + 0.0014 * cycle_index) 0.20\<close> and fairness
  \<open>max (0.96 - 0.0005 * cycle_index) 0.90\<close>, with no phase switch; from
  \<open>2\<^sup>1\<^sup>0\<^sup>2\<^sup>4 - 2\<^sup>9\<^sup>7\<^sup>0\<close> on the call raises \<^verbatim>\<open>OverflowError\<close>. At cycle 100 it returns
  divergence 0.19 and fairness 0.91 within \<open>10\<^sup>-\<^sup>9\<close>.
\<close>

theorem mitigated_single_formula:
  "(0 \<le> cycle_index \<and> cycle_index < double_range \<longrightarrow>
      simulate_fairness_collapse_call cycle_index True =
        Inr \<lparr>cycle = cycle_index,
             divergence = spec_mitigated_divergence cycle_index,
             fairness = spec_mitigated_fairness cycle_index\<rparr>)
   \<and> (double_range \<le> cycle_index \<longrightarrow>
        simulate_fairness_collapse_call cycle_index True = Inl OverflowError)
   \<and> \<not> isl (simulate_fairness_collapse_call 100 True)
   \<and> \<bar>divergence (projr (simulate_fairness_collapse_call 100 True)) - 0.19\<bar> \<le> 1 / 10 ^ 9
   \<and> \<bar>fairness (projr (simulate_fairness_collapse_call 100 True)) - 0.91\<bar> \<le> 1 / 10 ^ 9"
proof -
  have in_range: "0 \<le> cycle_index \<and> cycle_index < double_range \<longrightarrow>
      simulate_fairness_collapse_call cycle_index True =
        Inr \<lparr>cycle = cycle_index,
             divergence = spec_mitigated_divergence cycle_index,
             fairness = spec_mitigated_fairness cycle_index\<rparr>"
    by (simp add: call_mitigated_in_range mitigated_value_formula)
  have beyond: "double_range \<le> cycle_index \<longrightarrow>
      simulate_fairness_collapse_call cycle_index True = Inl OverflowError"
    by (simp add: call_mitigated_overflow)
  have "simulate_fairness_collapse_call 100 True = Inr (simulate_fairness_collapse 100 True)"
    using double_range_large by (intro call_mitigated_in_range) simp
  then have at_100: "simulate_fairness_collapse_call 100 True =
      Inr \<lparr>cycle = 100, divergence = 0.19, fairness = 0.91\<rparr>"
    by (simp only: fairness_collapse_100_mitigated)
  have "\<not> isl (simulate_fairness_collapse_call 100 True)
     \<and> \<bar>divergence (projr (simulate_fairness_collapse_call 100 True)) - 0.19\<bar> \<le> 1 / 10 ^ 9
     \<and> \<bar>fairness (projr (simulate_fairness_collapse_call 100 True)) - 0.91\<bar> \<le> 1 / 10 ^ 9"
    unfolding at_100 by simp
  with in_range beyond show ?thesis by blast
qed

theorem mitigated_single_formula_witness:
  "(0 :: int) \<le> 100 \<and> 100 < double_range
   \<and> simulate_fairness_collapse_call 100 True =
       Inr \<lparr>cycle = 100, divergence = spec_mitigated_divergence 100,
            fairness = spec_mitigated_fairness 100\<rparr>
   \<and> double_range \<le> 2 ^ 1025
   \<and> simulate_fairness_collapse_call (2 ^ 1025) True = Inl OverflowError"
  using mitigated_single_formula [of 100] mitigated_single_formula [of "2 ^ 1025"]
  by (simp add: double_range_def)

section \<open>No validation of the cycle index\<close>

text \<open>
  C7, as stated: the model fails with an invalid-cycle error for every negative cycle
  index, on both paths, and raises nothing for a non-negative one. Both halves fail: at
  cycle \<open>-1\<close> both paths return a dictionary, and at the non-negative cycle \<open>2\<^sup>1\<^sup>0\<^sup>2\<^sup>5\<close> the
  unmitigated path raises \<^verbatim>\<open>OverflowError\<close>.
\<close>

theorem negative_cycle_error_counterexample:
  "simulate_fairness_collapse_call (- 1) False =
       Inr \<lparr>cycle = - 1, divergence = - 0.0084, fairness = 0.965\<rparr>
   \<and> simulate_fairness_collapse_call (- 1) True =
       Inr \<lparr>cycle = - 1, divergence = 0.0486, fairness = 0.9605\<rparr>
   \<and> (0 :: int) \<le> 2 ^ 1025
   \<and> simulate_fairness_collapse_call (2 ^ 1025) False = Inl OverflowError"
  by (simp add: simulate_fairness_collapse_call_def int_mul_float_def py_float_def
      py_bind_def double_range_def)

text \<open>
  C7, amended: the model does not validate its cycle index and has no invalid-cycle
  error. For every negative cycle index above \<open>- (2\<^sup>1\<^sup>0\<^sup>2\<^sup>4 - 2\<^sup>9\<^sup>7\<^sup>0)\<close> both paths return:
  the unmitigated path the phase-1 formulas (divergence \<open>0.0084 * cycle_index\<close>,
  fairness \<open>0.96 - 0.005 * cycle_index\<close>), the mitigated path
  \<open>0.05 + 0.0014 * cycle_index\<close> and \<open>0.96 - 0.0005 * cycle_index\<close>. The only error a
  call raises is \<^verbatim>\<open>OverflowError\<close>, and it raises it exactly when the integer it
  multiplies by a float is outside the range of a double: on the mitigated path when
  \<open>\<bar>cycle_index\<bar> \<ge> 2\<^sup>1\<^sup>0\<^sup>2\<^sup>4 - 2\<^sup>9\<^sup>7\<^sup>0\<close>, on the unmitigated path when
  \<open>cycle_index \<le> - (2\<^sup>1\<^sup>0\<^sup>2\<^sup>4 - 2\<^sup>9\<^sup>7\<^sup>0)\<close> or \<open>cycle_index \<ge> 2\<^sup>1\<^sup>0\<^sup>2\<^sup>4 - 2\<^sup>9\<^sup>7\<^sup>0 + 65\<close>. In
  particular no error is raised for a non-negative cycle index below
  \<open>2\<^sup>1\<^sup>0\<^sup>2\<^sup>4 - 2\<^sup>9\<^sup>7\<^sup>0\<close>.
\<close>

theorem no_cycle_validation:
  "(isl (simulate_fairness_collapse_call cycle_index True) \<longleftrightarrow> double_range \<le> \<bar>cycle_index\<bar>)
   \<and> (isl (simulate_fairness_collapse_call cycle_index False) \<longleftrightarrow>
        cycle_index \<le> - double_range \<or> double_range + 65 \<le> cycle_index)
   \<and> (isl (simulate_fairness_collapse_call cycle_index mitigated) \<longrightarrow>
        simulate_fairness_collapse_call cycle_index mitigated = Inl OverflowError)
   \<and> (- double_range < cycle_index \<and> cycle_index < 0 \<longrightarrow>
        simulate_fairness_collapse_call cycle_index False =
          Inr \<lparr>cycle = cycle_index,
               divergence = of_int cycle_index * 0.0084,
               fairness = 0.96 - of_int cycle_index * 0.005\<rparr>
        \<and> simulate_fairness_collapse_call cycle_index True =
          Inr \<lparr>cycle = cycle_index,
               divergence = 0.05 + of_int cycle_index * 0.0014,
               fairness = 0.96 - of_int cycle_index * 0.0005\<rparr>)"
proof -
  have mit: "isl (simulate_fairness_collapse_call cycle_index True) \<longleftrightarrow>
             double_range \<le> \<bar>cycle_index\<bar>"
  proof (cases "\<bar>cycle_index\<bar> < double_range")
    case True
    then show ?thesis by (simp add: call_mitigated_in_range)
  next
    case False
    then show ?thesis by (simp add: call_mitigated_overflow)
  qed
  have unmit: "isl (simulate_fairness_collapse_call cycle_index False) \<longleftrightarrow>
               cycle_index \<le> - double_range \<or> double_range + 65 \<le> cycle_index"
  proof (cases "- double_range < cycle_index \<and> cycle_index < double_range + 65")
    case True
    then have "\<not> (cycle_index \<le> - double_range \<or> double_range + 65 \<le> cycle_index)"
      by linarith
    with True show ?thesis by (simp add: call_unmitigated_in_range)
  next
    case False
    then have out: "cycle_index \<le> - double_range \<or> double_range + 65 \<le> cycle_index"
      by linarith
    from call_unmitigated_overflow [OF out] out show ?thesis by simp
  qed
  have only: "simulate_fairness_collapse_call cycle_index mitigated = Inl OverflowError"
    if "isl (simulate_fairness_collapse_call cycle_index mitigated)"
  proof (cases mitigated)
    case True
    with that mit have "double_range \<le> \<bar>cycle_index\<bar>" by simp
    with True show ?thesis by (simp add: call_mitigated_overflow)
  next
    case False
    with that unmit
    have "cycle_index \<le> - double_range \<or> double_range + 65 \<le> cycle_index" by simp
    from call_unmitigated_overflow [OF this] False show ?thesis by simp
  qed
  have neg: "simulate_fairness_collapse_call cycle_index False =
          Inr \<lparr>cycle = cycle_index,
               divergence = of_int cycle_index * 0.0084,
               fairness = 0.96 - of_int cycle_index * 0.005\<rparr>
        \<and> simulate_fairness_collapse_call cycle_index True =
          Inr \<lparr>cycle = cycle_index,
               divergence = 0.05 + of_int cycle_index * 0.0014,
               fairness = 0.96 - of_int cycle_index * 0.0005\<rparr>"
    if "- double_range < cycle_index" "cycle_index < 0"
  proof -
    from that double_range_large
    have r: "\<bar>cycle_index\<bar> < double_range" "cycle_index < double_range + 65" by linarith+
    have "min (0.05 + real_of_int cycle_index * 0.0014) 0.20
            = 0.05 + real_of_int cycle_index * 0.0014"
      and "max (0.96 - real_of_int cycle_index * 0.0005) 0.90
            = 0.96 - real_of_int cycle_index * 0.0005"
      using that(2) by (simp_all add: min_def max_def field_simps)
    with that show ?thesis
      by (simp add: call_mitigated_in_range [OF r(1)]
          call_unmitigated_in_range [OF that(1) r(2)] simulate_fairness_collapse_def)
  qed
  from mit unmit only neg show ?thesis by blast
qed

theorem no_cycle_validation_witness:
  "- double_range < - 1 \<and> (- 1 :: int) < 0
   \<and> simulate_fairness_collapse_call (- 1) False =
       Inr \<lparr>cycle = - 1, divergence = - 0.0084, fairness = 0.965\<rparr>
   \<and> simulate_fairness_collapse_call (- 1) True =
       Inr \<lparr>cycle = - 1, divergence = 0.0486, fairness = 0.9605\<rparr>
   \<and> \<not> isl (simulate_fairness_collapse_call (- 1) True)
   \<and> isl (simulate_fairness_collapse_call (- (2 ^ 1024)) True)
   \<and> simulate_fairness_collapse_call (- (2 ^ 1024)) True = Inl OverflowError"
  using no_cycle_validation [of "- 1" False] no_cycle_validation [of "- (2 ^ 1024)" True]
  by (simp add: double_range_def)

section \<open>Fairness of the calls that return\<close>

text \<open>
  C9, as stated: on the unmitigated path fairness is non-increasing over the whole
  non-negative integer domain. The statement fails for the large indices: cycle 0
  returns fairness 0.96, and cycle \<open>2\<^sup>1\<^sup>0\<^sup>2\<^sup>4 + 65\<close> returns no fairness at all, the product
  \<^verbatim>\<open>(cycle_num - 65) * 0.0169\<close> raising \<^verbatim>\<open>OverflowError\<close>.
\<close>

theorem unmitigated_fairness_overflow_counterexample:
  "(0 :: int) \<le> 0 \<and> (0 :: int) < 2 ^ 1024 + 65
   \<and> simulate_fairness_collapse_call 0 False =
       Inr \<lparr>cycle = 0, divergence = 0.0, fairness = 0.96\<rparr>
   \<and> simulate_fairness_collapse_call (2 ^ 1024 + 65) False = Inl OverflowError"
  by (simp add: simulate_fairness_collapse_call_def int_mul_float_def py_float_def
      py_bind_def double_range_def)

text \<open>
  C9, amended: on the unmitigated path fairness is non-increasing over the
  non-negative cycle indices below \<open>2\<^sup>1\<^sup>0\<^sup>2\<^sup>4 - 2\<^sup>9\<^sup>7\<^sup>0 + 65\<close>, where the call returns:
  for \<open>0 \<le> c1 < c2 < 2\<^sup>1\<^sup>0\<^sup>2\<^sup>4 - 2\<^sup>9\<^sup>7\<^sup>0 + 65\<close>, also across the phase boundaries at 50
  and 65, both calls return and the fairness at \<open>c2\<close> is at most the fairness at \<open>c1\<close>.
\<close>

theorem unmitigated_fairness_non_increasing:
  assumes "0 \<le> c1" and "c1 < c2" and "c2 < double_range + 65"
  shows "\<not> isl (simulate_fairness_collapse_call c1 False)
         \<and> \<not> isl (simulate_fairness_collapse_call c2 False)
         \<and> fairness (projr (simulate_fairness_collapse_call c2 False))
             \<le> fairness (projr (simulate_fairness_collapse_call c1 False))"
proof -
  from assms double_range_large
  have "- double_range < c1" "c1 < double_range + 65" "- double_range < c2" by linarith+
  with assms(3)
  have "simulate_fairness_collapse_call c1 False = Inr (simulate_fairness_collapse c1 False)"
    and "simulate_fairness_collapse_call c2 False = Inr (simulate_fairness_collapse c2 False)"
    by (simp_all add: call_unmitigated_in_range)
  with fairness_value_non_increasing [OF assms(1,2)] show ?thesis by simp
qed

theorem unmitigated_fairness_non_increasing_witness:
  "(0 :: int) \<le> 50 \<and> (50 :: int) < 51 \<and> 51 < double_range + 65
   \<and> \<not> isl (simulate_fairness_collapse_call 50 False)
   \<and> \<not> isl (simulate_fairness_collapse_call 51 False)
   \<and> fairness (projr (simulate_fairness_collapse_call 51 False))
       \<le> fairness (projr (simulate_fairness_collapse_call 50 False))
   \<and> (0 :: int) \<le> 40 \<and> (40 :: int) < 100 \<and> 100 < double_range + 65
   \<and> fairness (projr (simulate_fairness_collapse_call 100 False))
       \<le> fairness (projr (simulate_fairness_collapse_call 40 False))"
  using unmitigated_fairness_non_increasing [of 50 51] unmitigated_fairness_non_increasing [of 40 100]
  by (simp add: double_range_def)

text \<open>
  C10, as stated: for every non-negative cycle index the mitigated fairness is at least
  the unmitigated fairness, with equality exactly at 0. The statement fails for the
  large indices: at \<open>2\<^sup>1\<^sup>0\<^sup>2\<^sup>4 - 2\<^sup>9\<^sup>7\<^sup>0\<close> the unmitigated path returns fairness 0.15 and the
  mitigated path raises \<^verbatim>\<open>OverflowError\<close>, so there is no mitigated fairness to
  compare.
\<close>

theorem mitigated_fairness_overflow_counterexample:
  "(0 :: int) \<le> 2 ^ 1024 - 2 ^ 970
   \<and> simulate_fairness_collapse_call (2 ^ 1024 - 2 ^ 970) True = Inl OverflowError
   \<and> \<not> isl (simulate_fairness_collapse_call (2 ^ 1024 - 2 ^ 970) False)
   \<and> fairness (projr (simulate_fairness_collapse_call (2 ^ 1024 - 2 ^ 970) False)) = 0.15"
  by (simp add: simulate_fairness_collapse_call_def int_mul_float_def py_float_def
      py_bind_def double_range_def)

text \<open>
  C10, amended: for every non-negative cycle index below \<open>2\<^sup>1\<^sup>0\<^sup>2\<^sup>4 - 2\<^sup>9\<^sup>7\<^sup>0\<close> both paths
  return and the mitigated fairness is at least the unmitigated fairness, with equality
  exactly at cycle index 0.
\<close>

theorem mitigated_fairness_dominates:
  assumes "0 \<le> c" and "c < double_range"
  shows "\<not> isl (simulate_fairness_collapse_call c False)
         \<and> \<not> isl (simulate_fairness_collapse_call c True)
         \<and> fairness (projr (simulate_fairness_collapse_call c False))
             \<le> fairness (projr (simulate_fairness_collapse_call c True))
         \<and> (fairness (projr (simulate_fairness_collapse_call c True))
              = fairness (projr (simulate_fairness_collapse_call c False)) \<longleftrightarrow> c = 0)"
proof -
  from assms have "\<bar>c\<bar> < double_range" "- double_range < c" "c < double_range + 65"
    by linarith+
  then have "simulate_fairness_collapse_call c True = Inr (simulate_fairness_collapse c True)"
    and "simulate_fairness_collapse_call c False = Inr (simulate_fairness_collapse c False)"
    by (simp_all add: call_mitigated_in_range call_unmitigated_in_range)
  with fairness_value_dominates [OF assms(1)] show ?thesis by simp
qed

theorem mitigated_fairness_dominates_witness:
  "(0 :: int) \<le> 100 \<and> 100 < double_range
   \<and> \<not> isl (simulate_fairness_collapse_call 100 False)
   \<and> \<not> isl (simulate_fairness_collapse_call 100 True)
   \<and> fairness (projr (simulate_fairness_collapse_call 100 False))
       \<le> fairness (projr (simulate_fairness_collapse_call 100 True))
   \<and> fairness (projr (simulate_fairness_collapse_call 100 True))
       \<noteq> fairness (projr (simulate_fairness_collapse_call 100 False))
   \<and> (0 :: int) \<le> 0 \<and> 0 < double_range
   \<and> fairness (projr (simulate_fairness_collapse_call 0 True))
       = fairness (projr (simulate_fairness_collapse_call 0 False))"
  using mitigated_fairness_dominates [of 100] mitigated_fairness_dominates [of 0]
  by (simp add: double_range_def)

section \<open>The optimum of experiment 1\<close>

text \<open>
  The loop of \<^verbatim>\<open>max\<close> read from the right: the last item replaces the maximum of the
  items before it only when its key is strictly greater.
\<close>

lemma max_loop_snoc:
  "max_loop key m (xs @ [y]) =
     (if key y > key (max_loop key m xs) then y else max_loop key m xs)"
  by (induction xs arbitrary: m) simp_all

text \<open>
  The result of the loop is the item at the least index whose key is maximal: no key
  exceeds it, and every key before it is strictly smaller.
\<close>

lemma max_loop_first_argmax:
  "\<exists>i\<le>length xs. max_loop key m xs = (m # xs) ! i
      \<and> (\<forall>j\<le>length xs. key ((m # xs) ! j) \<le> key ((m # xs) ! i))
      \<and> (\<forall>j<i. key ((m # xs) ! j) < key ((m # xs) ! i))"
proof (induction xs rule: rev_induct)
  case Nil
  show ?case by simp
next
  case (snoc y xs)
  then obtain i where i: "i \<le> length xs" "max_loop key m xs = (m # xs) ! i"
    and ge: "\<forall>j\<le>length xs. key ((m # xs) ! j) \<le> key ((m # xs) ! i)"
    and gt: "\<forall>j<i. key ((m # xs) ! j) < key ((m # xs) ! i)"
    by blast
  have old: "(m # xs @ [y]) ! j = (m # xs) ! j" if "j \<le> length xs" for j
    using that by (metis Cons_eq_appendI le_imp_less_Suc length_Cons nth_append)
  have new: "(m # xs @ [y]) ! Suc (length xs) = y"
    by (metis Cons_eq_appendI length_Cons nth_append_length)
  show ?case
  proof (cases "key y > key (max_loop key m xs)")
    case True
    have "max_loop key m (xs @ [y]) = (m # xs @ [y]) ! Suc (length xs)"
      using True by (simp only: max_loop_snoc new if_True)
    moreover have "key ((m # xs @ [y]) ! j) \<le> key ((m # xs @ [y]) ! Suc (length xs))"
      if "j \<le> length (xs @ [y])" for j
    proof (cases "j \<le> length xs")
      case True
      with ge i \<open>key y > key (max_loop key m xs)\<close> show ?thesis
        by (simp only: old new) (metis less_eq_real_def order_trans)
    next
      case False
      with that have "j = Suc (length xs)" by simp
      then show ?thesis by simp
    qed
    moreover have "key ((m # xs @ [y]) ! j) < key ((m # xs @ [y]) ! Suc (length xs))"
      if "j < Suc (length xs)" for j
    proof -
      from that have j: "j \<le> length xs" by simp
      with ge have "key ((m # xs) ! j) \<le> key ((m # xs) ! i)" by blast
      with True i show ?thesis by (simp only: old[OF j] new)
    qed
    ultimately show ?thesis
      by (intro exI[of _ "Suc (length xs)"]) simp
  next
    case False
    have "max_loop key m (xs @ [y]) = (m # xs @ [y]) ! i"
      using False i by (simp only: max_loop_snoc old if_False)
    moreover have "key ((m # xs @ [y]) ! j) \<le> key ((m # xs @ [y]) ! i)"
      if "j \<le> length (xs @ [y])" for j
    proof (cases "j \<le> length xs")
      case True
      with ge i show ?thesis by (simp only: old)
    next
      case beyond: False
      with that have "j = Suc (length xs)" by simp
      with False i show ?thesis by (simp only: old new)
    qed
    moreover have "key ((m # xs @ [y]) ! j) < key ((m # xs @ [y]) ! i)" if "j < i" for j
    proof -
      from that i have "j \<le> length xs" by simp
      with gt that i show ?thesis by (simp only: old)
    qed
    ultimately show ?thesis using i
      by (intro exI[of _ i]) simp
  qed
qed

lemma py_max_first_argmax:
  assumes "xs \<noteq> []"
  shows "\<exists>i<length xs. py_max xs key = Inr (xs ! i)
      \<and> (\<forall>j<length xs. key (xs ! j) \<le> key (xs ! i))
      \<and> (\<forall>j<i. key (xs ! j) < key (xs ! i))"
proof -
  from assms obtain m it where xs: "xs = m # it" by (cases xs) auto
  from max_loop_first_argmax[of it key m] show ?thesis
    unfolding xs py_max_def by (simp add: less_Suc_eq_le)
qed

text \<open>
  C8: the selector fails on an empty sequence (the \<^verbatim>\<open>ValueError\<close> of \<^verbatim>\<open>max\<close>, the
  empty-input error of the specification), and on a non-empty sequence returns an entry
  of maximal throughput, the first such entry in input order: every entry before the
  returned one has a strictly smaller throughput.
\<close>

theorem optimal_stable_argmax:
  "optimal [] = Inl ValueError
   \<and> (rs \<noteq> [] \<longrightarrow>
        (\<exists>i<length rs. optimal rs = Inr (rs ! i)
           \<and> (\<forall>j<length rs. throughput (rs ! j) \<le> throughput (rs ! i))
           \<and> (\<forall>j<i. throughput (rs ! j) < throughput (rs ! i))))"
  unfolding optimal_def using py_max_first_argmax[of rs throughput]
  by (simp add: py_max_def)

text \<open>
  The witness has a tie: the second and the third entry share the largest throughput,
  and the second is returned.
\<close>

theorem optimal_stable_argmax_witness:
  "[\<lparr>throughput = 1, latency = 0, prediction_error = 0, horizon = 10\<rparr>,
    \<lparr>throughput = 2, latency = 0, prediction_error = 0, horizon = 20\<rparr>,
    \<lparr>throughput = 2, latency = 0, prediction_error = 0, horizon = 30\<rparr>] \<noteq> []
   \<and> optimal [\<lparr>throughput = 1, latency = 0, prediction_error = 0, horizon = 10\<rparr>,
      \<lparr>throughput = 2, latency = 0, prediction_error = 0, horizon = 20\<rparr>,
      \<lparr>throughput = 2, latency = 0, prediction_error = 0, horizon = 30\<rparr>]
     = Inr \<lparr>throughput = 2, latency = 0, prediction_error = 0, horizon = 20\<rparr>
   \<and> optimal ([] :: horizon_result list) = Inl ValueError"
  using optimal_stable_argmax
    [of "[\<lparr>throughput = 1, latency = 0, prediction_error = 0, horizon = 10\<rparr>,
          \<lparr>throughput = 2, latency = 0, prediction_error = 0, horizon = 20\<rparr>,
          \<lparr>throughput = 2, latency = 0, prediction_error = 0, horizon = 30\<rparr>]"]
  by (simp add: optimal_def py_max_def)

text \<open>
  C4: on the horizons 10, 30, 45, 60, 90 the entry of largest throughput is the one of
  horizon 30: its throughput, 821.275, is strictly greater than the throughput at each
  of 10, 45, 60 and 90, and \<^verbatim>\<open>optimal\<close> is that entry.
\<close>

theorem optimal_horizon_is_30:
  "map horizon results = [10, 30, 45, 60, 90]
   \<and> optimal results =
       Inr \<lparr>throughput = 821.275, latency = 8.8, prediction_error = 0.9, horizon = 30\<rparr>
   \<and> throughput (simulate_prediction_horizon 10) < throughput (simulate_prediction_horizon 30)
   \<and> throughput (simulate_prediction_horizon 45) < throughput (simulate_prediction_horizon 30)
   \<and> throughput (simulate_prediction_horizon 60) < throughput (simulate_prediction_horizon 30)
   \<and> throughput (simulate_prediction_horizon 90) < throughput (simulate_prediction_horizon 30)"
  by (simp add: optimal_def py_max_def results_def horizons_def
      simulate_prediction_horizon_def Let_def power2_eq_square)

end
